theory Spec2Isabelle
  imports Complex_Main
begin

section \<open>The sum visualizer: block-grid layout of the shapes\<close>

text \<open>
  The development follows \<^verbatim>\<open>addShapesForEquation\<close> and \<^verbatim>\<open>clearShapes\<close> of the
  WebXR shape visualizer. The two operand counts and every loop index are natural
  numbers: the properties below are about non-negative integer counts, which is what
  \<^verbatim>\<open>handleVisualizeClick\<close> passes (the results of \<^verbatim>\<open>parseInt\<close>, negative values
  rejected). Coordinates are JavaScript numbers in the source; here they are real
  numbers, so every product, sum and quotient below is the exact one and the rounding of
  binary floating point is left out of the model.
\<close>

subsection \<open>Scene objects and the component's references\<close>

datatype colour = orangeColor | blueColor

type_synonym texture = nat

text \<open>
  A \<^verbatim>\<open>THREE.Mesh\<close>. Every object of the library gets a fresh \<^verbatim>\<open>id\<close> from a global
  counter when it is constructed; \<open>uid\<close> is that number and stands for the identity of
  the JavaScript object. \<open>geometry\<close> holds the three edge lengths of the box,
  \<open>color\<close> and \<open>map_tex\<close> are the tint and the texture of its material.
\<close>

record mesh =
  uid :: nat
  geometry :: "real \<times> real \<times> real"
  color :: colour
  map_tex :: texture
  position :: "real \<times> real \<times> real"

datatype object3d = Light nat | Shape mesh

record scene =
  children :: "object3d list"

text \<open>
  The references and state of the component that the two functions read and write:
  \<^verbatim>\<open>sceneRef.current\<close>, \<^verbatim>\<open>shapeMeshesRef.current\<close>, \<^verbatim>\<open>textureRef.current\<close>
  (\<open>None\<close> is \<^verbatim>\<open>null\<close>), the flag \<^verbatim>\<open>textureLoaded\<close> (the value the callback was
  created with), and the library's object counter.
\<close>

record app =
  sceneRef :: "scene option"
  shapeMeshesRef :: "mesh list"
  textureRef :: "texture option"
  textureLoaded :: bool
  nextId :: nat

text \<open>
  \<^verbatim>\<open>scene.remove(o)\<close> takes the object out of the children when it is there
  (the first occurrence, found by identity); \<^verbatim>\<open>scene.add(o)\<close> appends it.
\<close>

definition scene_remove :: "scene \<Rightarrow> mesh \<Rightarrow> scene" where
  "scene_remove sc shape = sc\<lparr>children := remove1 (Shape shape) (children sc)\<rparr>"

definition scene_add :: "scene \<Rightarrow> mesh \<Rightarrow> scene" where
  "scene_add sc shape = sc\<lparr>children := children sc @ [Shape shape]\<rparr>"

subsection \<open>clearShapes\<close>

text \<open>
  Returns at once when there is no scene. Otherwise every mesh of the list is removed
  from the scene (its geometry and material are disposed, which frees GPU memory and is
  not part of the state here) and the list is emptied.
\<close>

definition clearShapes :: "app \<Rightarrow> app" where
  "clearShapes s =
     (case sceneRef s of
        None \<Rightarrow> s
      | Some sc \<Rightarrow>
          s\<lparr>sceneRef := Some (foldl scene_remove sc (shapeMeshesRef s)),
            shapeMeshesRef := []\<rparr>)"

subsection \<open>The constants and the locals of addShapesForEquation\<close>

definition boxSize :: real where
  "boxSize = 1"

definition spacing :: real where
  "spacing = 1.2"

definition gridX_dim :: nat where
  "gridX_dim = 5"

definition gridY_dim :: nat where
  "gridY_dim = 5"

definition gridZ_dim :: nat where
  "gridZ_dim = 5"

definition maxShapesPerBlock :: nat where
  "maxShapesPerBlock = gridX_dim * gridY_dim * gridZ_dim"

definition totalShapes :: "nat \<Rightarrow> nat \<Rightarrow> nat" where
  "totalShapes num1 num2 = num1 + num2"

definition numBlocks :: "nat \<Rightarrow> nat" where
  "numBlocks tot = nat \<lceil>real tot / real maxShapesPerBlock\<rceil>"

definition blockSpacingX :: real where
  "blockSpacingX = (real gridX_dim * spacing) + 3"

definition lastBlockShapes :: "nat \<Rightarrow> nat" where
  "lastBlockShapes tot = tot mod maxShapesPerBlock"

definition columnsInLastBlock :: "nat \<Rightarrow> nat" where
  "columnsInLastBlock tot =
     (if lastBlockShapes tot = 0 \<and> tot > 0 then gridX_dim
      else (if lastBlockShapes tot > 0
            then (lastBlockShapes tot - 1) mod gridX_dim + 1 else 0))"

definition totalSceneWidth :: "nat \<Rightarrow> real" where
  "totalSceneWidth tot =
     (if numBlocks tot > 0
      then (let w = (real (numBlocks tot) - 1) * blockSpacingX
            in if columnsInLastBlock tot > 0
               then w + ((real (columnsInLastBlock tot) - 1) * spacing + boxSize)
               else w)
      else 0)"

definition overallStartX :: "nat \<Rightarrow> real" where
  "overallStartX tot = (- totalSceneWidth tot) / 2"

text \<open>The locals of one iteration of the loop, as functions of the loop variable.\<close>

definition currentBlockIndex :: "nat \<Rightarrow> nat" where
  "currentBlockIndex i = nat \<lfloor>real i / real maxShapesPerBlock\<rfloor>"

definition indexInBlock :: "nat \<Rightarrow> nat" where
  "indexInBlock i = i mod maxShapesPerBlock"

definition xInBlock :: "nat \<Rightarrow> nat" where
  "xInBlock i = indexInBlock i mod gridX_dim"

definition yInBlock :: "nat \<Rightarrow> nat" where
  "yInBlock i = nat \<lfloor>real (indexInBlock i) / real gridX_dim\<rfloor> mod gridY_dim"

definition zInBlock :: "nat \<Rightarrow> nat" where
  "zInBlock i = nat \<lfloor>real (indexInBlock i) / real (gridX_dim * gridY_dim)\<rfloor>"

definition blockCenterOffsetX :: real where
  "blockCenterOffsetX = (real gridX_dim - 1) * spacing / 2"

definition blockCenterOffsetY :: real where
  "blockCenterOffsetY = (real gridY_dim - 1) * spacing / 2"

definition blockCenterOffsetZ :: real where
  "blockCenterOffsetZ = (real gridZ_dim - 1) * spacing / 2"

definition finalX :: "nat \<Rightarrow> nat \<Rightarrow> real" where
  "finalX tot i =
     overallStartX tot + (real (currentBlockIndex i) * blockSpacingX)
       + (real (xInBlock i) * spacing) - blockCenterOffsetX"

definition finalY :: "nat \<Rightarrow> real" where
  "finalY i = (real (yInBlock i) * spacing) - blockCenterOffsetY"

definition finalZ :: "nat \<Rightarrow> real" where
  "finalZ i = (real (zInBlock i) * spacing) - blockCenterOffsetZ"

text \<open>
  The mesh built in iteration \<open>i\<close>: orange below \<open>num1\<close>, blue from there on; \<open>k\<close> is
  the value of the object counter when the mesh is constructed.
\<close>

definition newShape :: "nat \<Rightarrow> nat \<Rightarrow> texture \<Rightarrow> nat \<Rightarrow> nat \<Rightarrow> mesh" where
  "newShape num1 num2 tex k i =
     \<lparr>uid = k,
      geometry = (boxSize, boxSize, boxSize),
      color = (if i < num1 then orangeColor else blueColor),
      map_tex = tex,
      position = (finalX (totalShapes num1 num2) i, finalY i, finalZ i)\<rparr>"

subsection \<open>The loop and addShapesForEquation\<close>

text \<open>
  One iteration: construct the mesh, add it to the scene and push it on the list.
  The scene reference was tested by the guard before the loop and nothing in the loop
  assigns it, so \<^verbatim>\<open>sceneRef.current.add\<close> always finds the scene.
\<close>

definition loopBody :: "nat \<Rightarrow> nat \<Rightarrow> texture \<Rightarrow> nat \<Rightarrow> app \<Rightarrow> app" where
  "loopBody num1 num2 tex i s =
     (let shape = newShape num1 num2 tex (nextId s) i
      in s\<lparr>sceneRef := map_option (\<lambda>sc. scene_add sc shape) (sceneRef s),
           shapeMeshesRef := shapeMeshesRef s @ [shape],
           nextId := nextId s + 1\<rparr>)"

function shapesLoop :: "nat \<Rightarrow> nat \<Rightarrow> texture \<Rightarrow> nat \<Rightarrow> app \<Rightarrow> app" where
  "shapesLoop num1 num2 tex i s =
     (if i < totalShapes num1 num2
      then shapesLoop num1 num2 tex (i + 1) (loopBody num1 num2 tex i s)
      else s)"
  by pat_completeness auto
termination
  by (relation "measure (\<lambda>(num1, num2, tex, i, s). totalShapes num1 num2 - i)") auto

declare shapesLoop.simps [simp del]

text \<open>
  The shapes are cleared first; then the guard returns when the scene, the flag or the
  texture is missing; then the loop runs from index 0.
\<close>

definition addShapesForEquation :: "app \<Rightarrow> nat \<Rightarrow> nat \<Rightarrow> app" where
  "addShapesForEquation s num1 num2 =
     (let s1 = clearShapes s
      in if sceneRef s1 = None \<or> \<not> textureLoaded s1 \<or> textureRef s1 = None
         then s1
         else shapesLoop num1 num2 (the (textureRef s1)) 0 s1)"

text \<open>The guard of \<^verbatim>\<open>addShapesForEquation\<close> lets the call through.\<close>

definition ready :: "app \<Rightarrow> bool" where
  "ready s = (sceneRef s \<noteq> None \<and> textureLoaded s \<and> textureRef s \<noteq> None)"

subsection \<open>The shapes of a state\<close>

text \<open>
  The meshes among the children of a scene, in the order of the children, and the
  other children (the lights the mount effect adds).
\<close>

primrec shapesOf :: "object3d list \<Rightarrow> mesh list" where
  "shapesOf [] = []"
| "shapesOf (c # cs) = (case c of Light k \<Rightarrow> shapesOf cs | Shape m \<Rightarrow> m # shapesOf cs)"

primrec lightsOf :: "object3d list \<Rightarrow> nat list" where
  "lightsOf [] = []"
| "lightsOf (c # cs) = (case c of Light k \<Rightarrow> k # lightsOf cs | Shape m \<Rightarrow> lightsOf cs)"

definition sceneShapes :: "app \<Rightarrow> mesh list" where
  "sceneShapes s = (case sceneRef s of None \<Rightarrow> [] | Some sc \<Rightarrow> shapesOf (children sc))"

definition sceneLights :: "app \<Rightarrow> nat list" where
  "sceneLights s = (case sceneRef s of None \<Rightarrow> [] | Some sc \<Rightarrow> lightsOf (children sc))"

text \<open>
  The states the component keeps to: the meshes in the scene are the meshes of the list,
  in the same order (both functions add to and remove from the two together), and every
  mesh was constructed before the counter reached its present value. Without a scene
  the list is empty.
\<close>

definition consistent :: "app \<Rightarrow> bool" where
  "consistent s =
     (sceneShapes s = shapeMeshesRef s \<and> list_all (\<lambda>m. uid m < nextId s) (shapeMeshesRef s))"

subsection \<open>The layout as the specification words it\<close>

text \<open>
  The closed form of the specification (its section 4.1), written with integer division
  and remainder on the index. \<open>columnsInLastBlock\<close> is, in the specification's words,
  the number of columns the last block actually occupies, derived from the remainder of
  the total: a block of \<open>r\<close> units fills the x cells \<open>0\<close> to \<open>r - 1\<close> of its first row
  and, from five units on, all five columns. \<open>spec_lastBlockColumns\<close> lists the x cells
  of the units of the last block, each once. The specification names
  \<open>blockXCenterOffset\<close> without spelling it out; it is the X analogue of its Y and Z
  offsets.
\<close>

definition spec_gridX :: nat where
  "spec_gridX = 5"

definition spec_gridY :: nat where
  "spec_gridY = 5"

definition spec_gridZ :: nat where
  "spec_gridZ = 5"

definition spec_spacing :: real where
  "spec_spacing = 1.2"

definition spec_blockGap :: real where
  "spec_blockGap = 3"

definition spec_unitSize :: real where
  "spec_unitSize = 1"

definition spec_blockCapacity :: nat where
  "spec_blockCapacity = spec_gridX * spec_gridY * spec_gridZ"

definition spec_blockCount :: "nat \<Rightarrow> nat" where
  "spec_blockCount tot = (tot + spec_blockCapacity - 1) div spec_blockCapacity"

definition spec_blockSpacingX :: real where
  "spec_blockSpacingX = real spec_gridX * spec_spacing + spec_blockGap"

definition spec_columnsInLastBlock :: "nat \<Rightarrow> nat" where
  "spec_columnsInLastBlock tot =
     (if tot mod spec_blockCapacity = 0 then spec_gridX
      else min (tot mod spec_blockCapacity) spec_gridX)"

definition spec_totalSceneWidth :: "nat \<Rightarrow> real" where
  "spec_totalSceneWidth tot =
     real (spec_blockCount tot - 1) * spec_blockSpacingX
       + ((real (spec_columnsInLastBlock tot) - 1) * spec_spacing + spec_unitSize)"

definition spec_overallStartX :: "nat \<Rightarrow> real" where
  "spec_overallStartX tot = - (spec_totalSceneWidth tot / 2)"

definition spec_blockXCenterOffset :: real where
  "spec_blockXCenterOffset = (real spec_gridX - 1) * spec_spacing / 2"

definition spec_blockIndex :: "nat \<Rightarrow> nat" where
  "spec_blockIndex i = i div spec_blockCapacity"

definition spec_indexInBlock :: "nat \<Rightarrow> nat" where
  "spec_indexInBlock i = i mod spec_blockCapacity"

definition spec_xCell :: "nat \<Rightarrow> nat" where
  "spec_xCell i = spec_indexInBlock i mod spec_gridX"

definition spec_yCell :: "nat \<Rightarrow> nat" where
  "spec_yCell i = (spec_indexInBlock i div spec_gridX) mod spec_gridY"

definition spec_zCell :: "nat \<Rightarrow> nat" where
  "spec_zCell i = spec_indexInBlock i div (spec_gridX * spec_gridY)"

definition spec_lastBlockColumns :: "nat \<Rightarrow> nat list" where
  "spec_lastBlockColumns tot =
     remdups (map spec_xCell
       (filter (\<lambda>i. spec_blockIndex i = spec_blockCount tot - 1) [0..<tot]))"

definition spec_position :: "nat \<Rightarrow> nat \<Rightarrow> real \<times> real \<times> real" where
  "spec_position tot i =
     (spec_overallStartX tot + real (spec_blockIndex i) * spec_blockSpacingX
        + real (spec_xCell i) * spec_spacing - spec_blockXCenterOffset,
      real (spec_yCell i) * spec_spacing - (real spec_gridY - 1) * spec_spacing / 2,
      real (spec_zCell i) * spec_spacing - (real spec_gridZ - 1) * spec_spacing / 2)"

subsection \<open>Example states\<close>

text \<open>
  \<open>mountedState\<close>: after the mount effect and the texture callback, before any shape is
  placed (the scene holds the three lights). \<open>placedState\<close>: one mesh placed.
  \<open>loadingState\<close>: the same with the texture still loading. \<open>noSceneState\<close>: before
  the mount effect, with no scene, no texture and nothing in the list.
\<close>

definition oldShape :: mesh where
  "oldShape = \<lparr>uid = 3, geometry = (1, 1, 1), color = orangeColor, map_tex = 0,
     position = (- 5.3, - 2.4, - 2.4)\<rparr>"

definition mountedState :: app where
  "mountedState = \<lparr>sceneRef = Some \<lparr>children = [Light 0, Light 1, Light 2]\<rparr>,
     shapeMeshesRef = [], textureRef = Some 0, textureLoaded = True, nextId = 3\<rparr>"

definition placedState :: app where
  "placedState = \<lparr>sceneRef = Some \<lparr>children = [Light 0, Light 1, Light 2, Shape oldShape]\<rparr>,
     shapeMeshesRef = [oldShape], textureRef = Some 0, textureLoaded = True, nextId = 4\<rparr>"

definition loadingState :: app where
  "loadingState = \<lparr>sceneRef = Some \<lparr>children = [Light 0, Light 1, Light 2, Shape oldShape]\<rparr>,
     shapeMeshesRef = [oldShape], textureRef = None, textureLoaded = False, nextId = 4\<rparr>"

definition noSceneState :: app where
  "noSceneState = \<lparr>sceneRef = None, shapeMeshesRef = [], textureRef = None,
     textureLoaded = False, nextId = 0\<rparr>"

section \<open>Properties of the model\<close>

subsection \<open>What the loop leaves in the state\<close>

lemma clearShapes_fields:
  "textureRef (clearShapes s) = textureRef s"
  "textureLoaded (clearShapes s) = textureLoaded s"
  "nextId (clearShapes s) = nextId s"
  "(sceneRef (clearShapes s) = None) = (sceneRef s = None)"
  by (simp_all add: clearShapes_def split: option.splits)

lemma clearShapes_list:
  "sceneRef s \<noteq> None \<Longrightarrow> shapeMeshesRef (clearShapes s) = []"
  by (auto simp: clearShapes_def split: option.splits)

lemma clearShapes_no_scene: "sceneRef s = None \<Longrightarrow> clearShapes s = s"
  by (simp add: clearShapes_def)

lemma shapesLoop_list:
  "shapeMeshesRef (shapesLoop num1 num2 tex i s) =
     shapeMeshesRef s
       @ map (\<lambda>j. newShape num1 num2 tex (nextId s + j - i) j) [i..<totalShapes num1 num2]"
proof (induction num1 num2 tex i s rule: shapesLoop.induct)
  case (1 num1 num2 tex i s)
  show ?case
  proof (cases "i < totalShapes num1 num2")
    case True
    have u: "[i..<totalShapes num1 num2] = i # [Suc i..<totalShapes num1 num2]"
      using True by (simp add: upt_conv_Cons)
    have "shapeMeshesRef (shapesLoop num1 num2 tex i s)
        = shapeMeshesRef (shapesLoop num1 num2 tex (i + 1) (loopBody num1 num2 tex i s))"
      using True by (subst shapesLoop.simps) simp
    also have "\<dots> = shapeMeshesRef (loopBody num1 num2 tex i s)
        @ map (\<lambda>j. newShape num1 num2 tex (nextId (loopBody num1 num2 tex i s) + j - (i + 1)) j)
            [i + 1..<totalShapes num1 num2]"
      using 1 [OF True] .
    also have "\<dots> = shapeMeshesRef s
        @ map (\<lambda>j. newShape num1 num2 tex (nextId s + j - i) j) [i..<totalShapes num1 num2]"
      unfolding u by (simp add: loopBody_def Let_def)
    finally show ?thesis .
  next
    case False
    then show ?thesis
      by (subst shapesLoop.simps) simp
  qed
qed

lemma shapesLoop_nextId:
  "nextId (shapesLoop num1 num2 tex i s) = nextId s + (totalShapes num1 num2 - i)"
proof (induction num1 num2 tex i s rule: shapesLoop.induct)
  case (1 num1 num2 tex i s)
  show ?case
  proof (cases "i < totalShapes num1 num2")
    case True
    with 1 show ?thesis
      by (subst shapesLoop.simps) (simp add: loopBody_def Let_def)
  next
    case False
    then show ?thesis
      by (subst shapesLoop.simps) simp
  qed
qed

lemma shapesLoop_textureRef:
  "textureRef (shapesLoop num1 num2 tex i s) = textureRef s"
proof (induction num1 num2 tex i s rule: shapesLoop.induct)
  case (1 num1 num2 tex i s)
  show ?case
  proof (cases "i < totalShapes num1 num2")
    case True
    with 1 show ?thesis
      by (subst shapesLoop.simps) (simp add: loopBody_def Let_def)
  next
    case False
    then show ?thesis
      by (subst shapesLoop.simps) simp
  qed
qed

lemma shapesLoop_textureLoaded:
  "textureLoaded (shapesLoop num1 num2 tex i s) = textureLoaded s"
proof (induction num1 num2 tex i s rule: shapesLoop.induct)
  case (1 num1 num2 tex i s)
  show ?case
  proof (cases "i < totalShapes num1 num2")
    case True
    with 1 show ?thesis
      by (subst shapesLoop.simps) (simp add: loopBody_def Let_def)
  next
    case False
    then show ?thesis
      by (subst shapesLoop.simps) simp
  qed
qed

lemma shapesLoop_scene:
  "sceneRef (shapesLoop num1 num2 tex i s) =
     map_option (\<lambda>sc. sc\<lparr>children := children sc
        @ map (\<lambda>j. Shape (newShape num1 num2 tex (nextId s + j - i) j)) [i..<totalShapes num1 num2]\<rparr>)
       (sceneRef s)"
proof (induction num1 num2 tex i s rule: shapesLoop.induct)
  case (1 num1 num2 tex i s)
  show ?case
  proof (cases "i < totalShapes num1 num2")
    case True
    have u: "[i..<totalShapes num1 num2] = i # [Suc i..<totalShapes num1 num2]"
      using True by (simp add: upt_conv_Cons)
    have "sceneRef (shapesLoop num1 num2 tex i s)
        = sceneRef (shapesLoop num1 num2 tex (i + 1) (loopBody num1 num2 tex i s))"
      using True by (subst shapesLoop.simps) simp
    also have "\<dots> = map_option (\<lambda>sc. sc\<lparr>children := children sc
        @ map (\<lambda>j. Shape (newShape num1 num2 tex (nextId (loopBody num1 num2 tex i s) + j - (i + 1)) j))
            [i + 1..<totalShapes num1 num2]\<rparr>)
       (sceneRef (loopBody num1 num2 tex i s))"
      using 1 [OF True] .
    also have "\<dots> = map_option (\<lambda>sc. sc\<lparr>children := children sc
        @ map (\<lambda>j. Shape (newShape num1 num2 tex (nextId s + j - i) j)) [i..<totalShapes num1 num2]\<rparr>)
       (sceneRef s)"
    proof (cases "sceneRef s")
      case None
      then show ?thesis by (simp add: loopBody_def Let_def)
    next
      case (Some sc)
      then show ?thesis
        unfolding u by (simp add: loopBody_def Let_def scene_add_def)
    qed
    finally show ?thesis .
  next
    case False
    have "sceneRef (shapesLoop num1 num2 tex i s) = sceneRef s"
      using False by (subst shapesLoop.simps) simp
    moreover have "[i..<totalShapes num1 num2] = []"
      using False by simp
    ultimately show ?thesis
      by (cases "sceneRef s") simp_all
  qed
qed

lemma addShapes_ready_eq:
  "ready s \<Longrightarrow>
   addShapesForEquation s num1 num2 = shapesLoop num1 num2 (the (textureRef s)) 0 (clearShapes s)"
  by (auto simp: addShapesForEquation_def Let_def ready_def clearShapes_fields)

lemma addShapes_guard_fails:
  "sceneRef s = None \<or> \<not> textureLoaded s \<or> textureRef s = None \<Longrightarrow>
   addShapesForEquation s num1 num2 = clearShapes s"
  by (auto simp: addShapesForEquation_def Let_def clearShapes_fields)

lemma addShapes_ready_list:
  assumes "ready s"
  shows "shapeMeshesRef (addShapesForEquation s num1 num2) =
     map (\<lambda>j. newShape num1 num2 (the (textureRef s)) (nextId s + j) j) [0..<num1 + num2]"
proof -
  from assms have sc: "sceneRef s \<noteq> None" by (simp add: ready_def)
  have "shapeMeshesRef (addShapesForEquation s num1 num2) =
      shapeMeshesRef (shapesLoop num1 num2 (the (textureRef s)) 0 (clearShapes s))"
    using assms by (simp only: addShapes_ready_eq)
  also have "\<dots> = shapeMeshesRef (clearShapes s)
       @ map (\<lambda>j. newShape num1 num2 (the (textureRef s)) (nextId (clearShapes s) + j - 0) j)
           [0..<totalShapes num1 num2]"
    by (rule shapesLoop_list)
  also have "\<dots> = map (\<lambda>j. newShape num1 num2 (the (textureRef s)) (nextId s + j) j) [0..<num1 + num2]"
    using sc by (simp add: clearShapes_list clearShapes_fields totalShapes_def)
  finally show ?thesis .
qed

lemma addShapes_ready_nth:
  assumes "ready s" "i < num1 + num2"
  shows "shapeMeshesRef (addShapesForEquation s num1 num2) ! i =
     newShape num1 num2 (the (textureRef s)) (nextId s + i) i"
  using assms by (simp add: addShapes_ready_list)

lemma addShapes_ready_length:
  "ready s \<Longrightarrow> length (shapeMeshesRef (addShapesForEquation s num1 num2)) = num1 + num2"
  by (simp add: addShapes_ready_list)

lemma addShapes_ready_colors:
  "ready s \<Longrightarrow> map color (shapeMeshesRef (addShapesForEquation s num1 num2)) =
     map (\<lambda>i. if i < num1 then orangeColor else blueColor) [0..<num1 + num2]"
  by (simp add: addShapes_ready_list newShape_def)

lemma addShapes_ready_positions:
  "ready s \<Longrightarrow> map position (shapeMeshesRef (addShapesForEquation s num1 num2)) =
     map (\<lambda>i. (finalX (num1 + num2) i, finalY i, finalZ i)) [0..<num1 + num2]"
  by (simp add: addShapes_ready_list newShape_def totalShapes_def)

lemma addShapes_ready_nextId:
  "ready s \<Longrightarrow> nextId (addShapesForEquation s num1 num2) = nextId s + (num1 + num2)"
  by (simp add: addShapes_ready_eq shapesLoop_nextId clearShapes_fields totalShapes_def)

lemma addShapes_ready_uids:
  assumes "ready s" and "m \<in> set (shapeMeshesRef (addShapesForEquation s num1 num2))"
  shows "nextId s \<le> uid m \<and> uid m < nextId s + (num1 + num2)"
  using assms by (auto simp: addShapes_ready_list newShape_def)

lemma addShapes_ready_preserved:
  assumes "ready s"
  shows "ready (addShapesForEquation s num1 num2)"
proof -
  from assms obtain sc where "sceneRef (clearShapes s) = Some sc"
    by (auto simp: ready_def clearShapes_def)
  then have "sceneRef (shapesLoop num1 num2 (the (textureRef s)) 0 (clearShapes s)) \<noteq> None"
    by (simp add: shapesLoop_scene)
  then show ?thesis
    using assms
    by (simp add: addShapes_ready_eq ready_def shapesLoop_textureRef shapesLoop_textureLoaded
        clearShapes_fields)
qed

subsection \<open>Arithmetic of the locals\<close>

lemma floor_nat_div: "nat \<lfloor>real i / real n\<rfloor> = i div n"
  by (simp add: floor_divide_of_nat_eq)

lemma maxShapesPerBlock_125: "maxShapesPerBlock = 125"
  by (simp add: maxShapesPerBlock_def gridX_dim_def gridY_dim_def gridZ_dim_def)

lemma currentBlockIndex_div: "currentBlockIndex i = i div 125"
  unfolding currentBlockIndex_def floor_nat_div by (simp add: maxShapesPerBlock_125)

lemma indexInBlock_mod: "indexInBlock i = i mod 125"
  by (simp add: indexInBlock_def maxShapesPerBlock_125)

lemma xInBlock_mod: "xInBlock i = (i mod 125) mod 5"
  by (simp add: xInBlock_def indexInBlock_mod gridX_dim_def)

lemma yInBlock_div: "yInBlock i = ((i mod 125) div 5) mod 5"
  unfolding yInBlock_def floor_nat_div by (simp add: indexInBlock_mod gridX_dim_def gridY_dim_def)

lemma zInBlock_div: "zInBlock i = (i mod 125) div 25"
  unfolding zInBlock_def floor_nat_div by (simp add: indexInBlock_mod gridX_dim_def gridY_dim_def)

lemma numBlocks_div: "numBlocks t = (t + 124) div 125"
proof -
  have "\<lceil>real t / real (125::nat)\<rceil> = \<lceil>(of_int (int t) :: real) / of_int 125\<rceil>" by simp
  also have "\<dots> = - (- int t div 125)" by (rule ceiling_divide_eq_div)
  finally have e: "\<lceil>real t / real (125::nat)\<rceil> = - (- int t div 125)" .
  have "nat (- (- int t div 125)) = (t + 124) div 125" by linarith
  then show ?thesis unfolding numBlocks_def maxShapesPerBlock_125 e .
qed

lemma numBlocks_pos: "0 < tot \<Longrightarrow> 0 < numBlocks tot"
  by (simp add: numBlocks_div div_greater_zero_iff)

lemma columnsInLastBlock_pos: "0 < tot \<Longrightarrow> 0 < columnsInLastBlock tot"
  by (simp add: columnsInLastBlock_def gridX_dim_def)

lemmas layout_defs =
  finalX_def finalY_def finalZ_def overallStartX_def totalSceneWidth_def numBlocks_div
  columnsInLastBlock_def lastBlockShapes_def maxShapesPerBlock_125 blockSpacingX_def
  blockCenterOffsetX_def blockCenterOffsetY_def blockCenterOffsetZ_def
  currentBlockIndex_div indexInBlock_mod xInBlock_mod yInBlock_div zInBlock_div
  gridX_dim_def gridY_dim_def gridZ_dim_def spacing_def boxSize_def totalShapes_def

lemma upt_5: "[0..<5] = [0, 1, 2, 3, 4::nat]"
  by code_simp

lemma upt_126: "[0..<126] = [0..<125] @ [125::nat]"
proof -
  have "[0..<Suc 125] = [0..<125] @ [125::nat]" by (rule upt_Suc_append) simp
  then show ?thesis by simp
qed

subsection \<open>The source's locals and the specification's closed form\<close>

lemma spec_blockCapacity_125: "spec_blockCapacity = 125"
  by (simp add: spec_blockCapacity_def spec_gridX_def spec_gridY_def spec_gridZ_def)

lemma numBlocks_spec: "numBlocks tot = spec_blockCount tot"
  by (simp add: numBlocks_div spec_blockCount_def spec_blockCapacity_125)

lemma blockSpacingX_spec: "blockSpacingX = spec_blockSpacingX"
  by (simp add: blockSpacingX_def spec_blockSpacingX_def gridX_dim_def spec_gridX_def
      spacing_def spec_spacing_def spec_blockGap_def)

lemma last_row_column:
  fixes r :: nat
  assumes "r \<noteq> 0" "r \<le> 5 \<or> r mod 5 = 0"
  shows "(r - 1) mod 5 + 1 = min r 5"
proof -
  obtain m where m: "r = Suc m" using assms(1) by (cases r) auto
  show ?thesis using assms(2) mod_Suc [of m 5] unfolding m
    by (auto simp: min_def split: if_splits)
qed

lemma last_block_fill:
  fixes tot :: nat
  assumes "0 < tot"
  shows "(tot - 1) mod 125 + 1 = (if tot mod 125 = 0 then 125 else tot mod 125)"
proof -
  obtain m where m: "tot = Suc m" using assms by (cases tot) auto
  show ?thesis using mod_Suc [of m 125] unfolding m
    by (auto split: if_splits)
qed

lemma last_block_index:
  fixes tot :: nat
  assumes "0 < tot"
  shows "(tot + 124) div 125 - 1 = (tot - 1) div 125"
proof -
  obtain m where m: "tot = Suc m" using assms by (cases tot) auto
  have "(m + 125) div 125 = m div 125 + 1" by simp
  then show ?thesis unfolding m by simp
qed

lemma last_block_total:
  fixes tot :: nat
  assumes "0 < tot"
  shows "tot = 125 * ((tot - 1) div 125) + ((tot - 1) mod 125 + 1)"
proof -
  have "tot - 1 = 125 * ((tot - 1) div 125) + (tot - 1) mod 125" by simp
  with assms show ?thesis by linarith
qed

lemma mod_5_image:
  assumes "a mod 5 = (0::nat)"
  shows "(\<lambda>i. i mod 5) ` {a ..< a + r} = {0 ..< min r 5}"
proof (rule set_eqI, rule iffI)
  fix j assume "j \<in> (\<lambda>i. i mod 5) ` {a ..< a + r}"
  then obtain i where i: "a \<le> i" "i < a + r" "j = i mod 5" by auto
  then obtain k where k: "i = a + k" "k < r" by (metis le_Suc_ex nat_add_left_cancel_less)
  have "(a + k) mod 5 = k mod 5" using assms by (metis add_cancel_left_left mod_add_left_eq)
  then have "j = k mod 5" using i(3) k(1) by simp
  then show "j \<in> {0 ..< min r 5}" using k(2) by (auto simp: min_def)
next
  fix j assume "j \<in> {0 ..< min r 5}"
  then have j: "j < r" "j < 5" by auto
  have "(a + j) mod 5 = j mod 5" using assms by (metis add_cancel_left_left mod_add_left_eq)
  then have "(a + j) mod 5 = j" using j(2) by simp
  moreover have "a + j \<in> {a ..< a + r}" using j(1) by simp
  ultimately show "j \<in> (\<lambda>i. i mod 5) ` {a ..< a + r}" by (metis imageI)
qed


text \<open>
  The specification's column count is the number of x cells the units of the last block
  stand in.
\<close>

lemma spec_lastBlockColumns_length:
  assumes "0 < tot"
  shows "length (spec_lastBlockColumns tot) = spec_columnsInLastBlock tot"
proof -
  define b where "b = (tot - 1) div 125"
  define r where "r = (tot - 1) mod 125 + 1"
  have tot: "tot = 125 * b + r"
    unfolding b_def r_def using assms by (rule last_block_total)
  have r: "r \<le> 125"
    unfolding r_def by (simp add: Suc_leI)
  have members: "{i. i < tot \<and> i div 125 = b} = {125 * b ..< 125 * b + r}"
    using r unfolding tot by auto
  have cell: "spec_xCell i = i mod 5" for i
    by (simp add: spec_xCell_def spec_indexInBlock_def spec_blockCapacity_125 spec_gridX_def
        mod_mod_cancel)
  have idx: "spec_blockCount tot - 1 = b"
    using last_block_index [OF assms]
    by (simp add: spec_blockCount_def spec_blockCapacity_125 b_def)
  have "set (map spec_xCell (filter (\<lambda>i. spec_blockIndex i = spec_blockCount tot - 1) [0..<tot]))
      = (\<lambda>i. i mod 5) ` {i. i < tot \<and> i div 125 = b}"
    unfolding idx by (auto simp: cell spec_blockIndex_def spec_blockCapacity_125)
  also have "\<dots> = {0 ..< min r 5}"
    unfolding members by (rule mod_5_image) simp
  finally have "card (set (map spec_xCell
      (filter (\<lambda>i. spec_blockIndex i = spec_blockCount tot - 1) [0..<tot]))) = min r 5"
    by simp
  moreover have "spec_columnsInLastBlock tot = min r 5"
    using last_block_fill [OF assms]
    by (simp add: spec_columnsInLastBlock_def spec_blockCapacity_125 spec_gridX_def r_def)
  ultimately show ?thesis
    by (simp add: spec_lastBlockColumns_def length_remdups_card_conv)
qed

text \<open>
  The source's \<open>columnsInLastBlock\<close> is one more than the x cell of the last unit. It is
  the number of occupied columns when the last block has at most one row or its last row
  is full; otherwise it is smaller, as for the totals 6 and 16.
\<close>

lemma columnsInLastBlock_spec:
  assumes "0 < tot" and "tot mod 125 \<le> 5 \<or> tot mod 5 = 0"
  shows "columnsInLastBlock tot = spec_columnsInLastBlock tot"
proof (cases "tot mod 125 = 0")
  case True
  with assms(1) show ?thesis
    by (simp add: columnsInLastBlock_def spec_columnsInLastBlock_def lastBlockShapes_def
        maxShapesPerBlock_125 spec_blockCapacity_125 gridX_dim_def spec_gridX_def)
next
  case False
  have "tot mod 125 mod 5 = tot mod 5"
    by (simp add: mod_mod_cancel)
  with assms(2) have "tot mod 125 \<le> 5 \<or> tot mod 125 mod 5 = 0"
    by simp
  with False have "(tot mod 125 - 1) mod 5 + 1 = min (tot mod 125) 5"
    by (rule last_row_column)
  with False show ?thesis
    by (simp add: columnsInLastBlock_def spec_columnsInLastBlock_def lastBlockShapes_def
        maxShapesPerBlock_125 spec_blockCapacity_125 gridX_dim_def spec_gridX_def)
qed

lemma columnsInLastBlock_6: "columnsInLastBlock 6 = 1 \<and> spec_columnsInLastBlock 6 = 5"
  by (simp add: columnsInLastBlock_def spec_columnsInLastBlock_def lastBlockShapes_def
      maxShapesPerBlock_125 spec_blockCapacity_125 gridX_dim_def spec_gridX_def)

lemma columnsInLastBlock_16: "columnsInLastBlock 16 = 1 \<and> spec_columnsInLastBlock 16 = 5"
  by (simp add: columnsInLastBlock_def spec_columnsInLastBlock_def lastBlockShapes_def
      maxShapesPerBlock_125 spec_blockCapacity_125 gridX_dim_def spec_gridX_def)

lemma totalSceneWidth_spec:
  assumes "0 < tot" and "columnsInLastBlock tot = spec_columnsInLastBlock tot"
  shows "totalSceneWidth tot = spec_totalSceneWidth tot"
proof -
  have nb: "0 < numBlocks tot" using assms(1) by (rule numBlocks_pos)
  have cl: "0 < columnsInLastBlock tot" using assms(1) by (rule columnsInLastBlock_pos)
  have "real (numBlocks tot) - 1 = real (spec_blockCount tot - 1)"
    using nb by (simp add: numBlocks_spec of_nat_diff)
  then show ?thesis
    using nb cl assms(1)
    by (simp add: totalSceneWidth_def spec_totalSceneWidth_def Let_def blockSpacingX_spec
        assms(2) [symmetric] spacing_def spec_spacing_def boxSize_def spec_unitSize_def)
qed

lemma finalX_spec:
  assumes "0 < tot" and "columnsInLastBlock tot = spec_columnsInLastBlock tot"
  shows "finalX tot i = fst (spec_position tot i)"
  using assms
  by (simp add: finalX_def spec_position_def overallStartX_def spec_overallStartX_def
      totalSceneWidth_spec blockSpacingX_spec currentBlockIndex_div spec_blockIndex_def
      spec_blockCapacity_125 xInBlock_mod spec_xCell_def spec_indexInBlock_def spec_gridX_def
      spacing_def spec_spacing_def blockCenterOffsetX_def spec_blockXCenterOffset_def gridX_dim_def)

lemma finalY_spec: "finalY i = fst (snd (spec_position tot i))"
  by (simp add: finalY_def spec_position_def yInBlock_div spec_yCell_def spec_indexInBlock_def
      spec_blockCapacity_125 spec_gridX_def spec_gridY_def spacing_def spec_spacing_def
      blockCenterOffsetY_def gridY_dim_def)

lemma finalZ_spec: "finalZ i = snd (snd (spec_position tot i))"
  by (simp add: finalZ_def spec_position_def zInBlock_div spec_zCell_def spec_indexInBlock_def
      spec_blockCapacity_125 spec_gridX_def spec_gridY_def spec_gridZ_def spacing_def
      spec_spacing_def blockCenterOffsetZ_def gridZ_dim_def)

lemmas spec_layout_defs =
  spec_position_def spec_overallStartX_def spec_totalSceneWidth_def spec_blockCount_def
  spec_columnsInLastBlock_def spec_blockSpacingX_def spec_blockXCenterOffset_def
  spec_blockIndex_def spec_indexInBlock_def spec_xCell_def spec_yCell_def spec_zCell_def
  spec_blockCapacity_def spec_gridX_def spec_gridY_def spec_gridZ_def spec_spacing_def
  spec_blockGap_def spec_unitSize_def

text \<open>
  Where the two column counts agree the mesh at index \<open>i\<close> stands at the closed form;
  its Y and Z coordinates do so for every total.
\<close>

lemma position_closed_form_columns_agree:
  assumes "ready s" and "i < num1 + num2"
    and "columnsInLastBlock (num1 + num2) = spec_columnsInLastBlock (num1 + num2)"
  shows "position (shapeMeshesRef (addShapesForEquation s num1 num2) ! i)
           = spec_position (num1 + num2) i"
proof -
  from assms(2) have pos: "0 < num1 + num2" by linarith
  have "position (shapeMeshesRef (addShapesForEquation s num1 num2) ! i)
      = (finalX (num1 + num2) i, finalY i, finalZ i)"
    using assms(1,2) by (simp add: addShapes_ready_nth newShape_def totalShapes_def)
  also have "\<dots> = spec_position (num1 + num2) i"
    using finalX_spec [OF pos assms(3), of i] finalY_spec [of i "num1 + num2"]
      finalZ_spec [of i "num1 + num2"]
    by (simp add: prod_eq_iff)
  finally show ?thesis .
qed

lemma position_closed_form_Y_Z:
  assumes "ready s" and "i < num1 + num2"
  shows "snd (position (shapeMeshesRef (addShapesForEquation s num1 num2) ! i))
           = snd (spec_position (num1 + num2) i)"
  using assms finalY_spec [of i "num1 + num2"] finalZ_spec [of i "num1 + num2"]
  by (simp add: addShapes_ready_nth newShape_def prod_eq_iff)

subsection \<open>Blocks\<close>

lemma block_members:
  "{i. i < tot \<and> currentBlockIndex i = blk} = {125 * blk ..< min tot (125 * blk + 125)}"
  by (auto simp: currentBlockIndex_div)

lemma block_filter_length:
  "length (filter (\<lambda>i. currentBlockIndex i = blk) [0..<tot])
     = card {i. i < tot \<and> currentBlockIndex i = blk}"
proof -
  have "{i. i < tot \<and> currentBlockIndex ([0..<tot] ! i) = blk}
      = {i. i < tot \<and> currentBlockIndex i = blk}"
    by auto
  then show ?thesis
    by (simp add: length_filter_conv_card)
qed

lemma full_block:
  assumes "blk + 1 < numBlocks tot"
  shows "length (filter (\<lambda>i. currentBlockIndex i = blk) [0..<tot]) = 125"
proof -
  from assms have "125 * blk + 125 \<le> tot"
    by (simp add: numBlocks_div)
  then show ?thesis
    by (simp add: block_filter_length block_members min_def)
qed

lemma any_block:
  "length (filter (\<lambda>i. currentBlockIndex i = blk) [0..<tot]) \<le> 125"
  by (auto simp: block_filter_length block_members min_def)

lemma block_pair_inj:
  assumes "currentBlockIndex i = currentBlockIndex j" and "indexInBlock i = indexInBlock j"
  shows "i = j"
proof -
  have "i = 125 * (i div 125) + i mod 125" by simp
  also have "\<dots> = 125 * (j div 125) + j mod 125"
    using assms by (simp add: currentBlockIndex_div indexInBlock_mod)
  also have "\<dots> = j" by simp
  finally show ?thesis .
qed

lemma first_block_filter:
  "n \<le> 125 \<Longrightarrow> filter (\<lambda>i. currentBlockIndex i = 0) [0..<n] = [0..<n]"
  by (simp add: currentBlockIndex_div)

lemma first_block_filter_1:
  "n \<le> 125 \<Longrightarrow> filter (\<lambda>i. currentBlockIndex i = 1) [0..<n] = []"
  by (simp add: currentBlockIndex_div)

subsection \<open>The scene across clearShapes and the loop\<close>

lemma shapesOf_remove1: "shapesOf (remove1 (Shape m) cs) = remove1 m (shapesOf cs)"
  by (induction cs) (auto split: object3d.splits)

lemma lightsOf_remove1: "lightsOf (remove1 (Shape m) cs) = lightsOf cs"
  by (induction cs) (auto split: object3d.splits)

lemma shapesOf_append: "shapesOf (cs @ ds) = shapesOf cs @ shapesOf ds"
  by (induction cs) (auto split: object3d.splits)

lemma lightsOf_append: "lightsOf (cs @ ds) = lightsOf cs @ lightsOf ds"
  by (induction cs) (auto split: object3d.splits)

lemma shapesOf_map_Shape: "shapesOf (map (\<lambda>j. Shape (f j)) xs) = map f xs"
  by (induction xs) auto

lemma lightsOf_map_Shape: "lightsOf (map (\<lambda>j. Shape (f j)) xs) = []"
  by (induction xs) auto

lemma foldl_scene_remove_shapes:
  "shapesOf (children (foldl scene_remove sc ms))
     = foldl (\<lambda>xs m. remove1 m xs) (shapesOf (children sc)) ms"
  by (induction ms arbitrary: sc) (simp_all add: scene_remove_def shapesOf_remove1)

lemma foldl_scene_remove_lights:
  "lightsOf (children (foldl scene_remove sc ms)) = lightsOf (children sc)"
  by (induction ms arbitrary: sc) (simp_all add: scene_remove_def lightsOf_remove1)

lemma foldl_remove1_prefix: "foldl (\<lambda>xs m. remove1 m xs) (ms @ rest) ms = rest"
  by (induction ms) simp_all

lemma clearShapes_sceneShapes:
  assumes "sceneShapes s = shapeMeshesRef s"
  shows "sceneShapes (clearShapes s) = []"
proof (cases "sceneRef s")
  case None
  then show ?thesis by (simp add: clearShapes_def sceneShapes_def)
next
  case (Some sc)
  with assms have "shapesOf (children sc) = shapeMeshesRef s @ []"
    by (simp add: sceneShapes_def)
  then have "foldl (\<lambda>xs m. remove1 m xs) (shapesOf (children sc)) (shapeMeshesRef s) = []"
    by (simp only: foldl_remove1_prefix)
  with Some show ?thesis
    by (simp add: clearShapes_def sceneShapes_def foldl_scene_remove_shapes)
qed

lemma clearShapes_sceneLights: "sceneLights (clearShapes s) = sceneLights s"
  by (cases "sceneRef s") (simp_all add: clearShapes_def sceneLights_def foldl_scene_remove_lights)

lemma clearShapes_list_consistent:
  "consistent s \<Longrightarrow> shapeMeshesRef (clearShapes s) = []"
  by (cases "sceneRef s") (simp_all add: clearShapes_def consistent_def sceneShapes_def)

text \<open>
  The list is filled only while there is a scene: a property of the mounted component
  that both functions keep, and all that emptying the list needs.
\<close>

lemma clearShapes_list_needs_scene:
  "sceneRef s = None \<longrightarrow> shapeMeshesRef s = [] \<Longrightarrow> shapeMeshesRef (clearShapes s) = []"
  by (cases "sceneRef s") (simp_all add: clearShapes_def)

lemma consistent_list_needs_scene:
  "consistent s \<Longrightarrow> sceneRef s = None \<longrightarrow> shapeMeshesRef s = []"
  by (auto simp: consistent_def sceneShapes_def)

lemma addShapes_scene_kept:
  "(sceneRef (addShapesForEquation s num1 num2) = None) = (sceneRef s = None)"
proof -
  have "(sceneRef (shapesLoop num1 num2 tex 0 (clearShapes s)) = None)
      = (sceneRef (clearShapes s) = None)" for tex
    by (simp add: shapesLoop_scene)
  then have "(sceneRef (addShapesForEquation s num1 num2) = None)
      = (sceneRef (clearShapes s) = None)"
    by (simp add: addShapesForEquation_def Let_def)
  then show ?thesis
    by (simp add: clearShapes_fields)
qed

lemma addShapes_list_needs_scene:
  assumes "sceneRef s = None \<longrightarrow> shapeMeshesRef s = []"
  shows "sceneRef (addShapesForEquation s num1 num2) = None
           \<longrightarrow> shapeMeshesRef (addShapesForEquation s num1 num2) = []"
proof
  assume "sceneRef (addShapesForEquation s num1 num2) = None"
  then have n: "sceneRef s = None"
    by (simp add: addShapes_scene_kept)
  then have "addShapesForEquation s num1 num2 = clearShapes s"
    by (simp add: addShapes_guard_fails)
  with n assms show "shapeMeshesRef (addShapesForEquation s num1 num2) = []"
    by (simp add: clearShapes_no_scene)
qed

lemma clearShapes_consistent: "consistent s \<Longrightarrow> consistent (clearShapes s)"
  by (simp add: consistent_def clearShapes_sceneShapes clearShapes_list_consistent)

lemma shapesLoop_sceneShapes:
  "sceneRef s \<noteq> None \<Longrightarrow>
   sceneShapes (shapesLoop num1 num2 tex i s)
     = sceneShapes s
         @ map (\<lambda>j. newShape num1 num2 tex (nextId s + j - i) j) [i..<totalShapes num1 num2]"
  by (cases "sceneRef s")
     (simp_all add: sceneShapes_def shapesLoop_scene shapesOf_append shapesOf_map_Shape)

lemma shapesLoop_sceneLights:
  "sceneLights (shapesLoop num1 num2 tex i s) = sceneLights s"
  by (cases "sceneRef s")
     (simp_all add: sceneLights_def shapesLoop_scene lightsOf_append lightsOf_map_Shape)

lemma addShapes_ready_sceneShapes:
  assumes "ready s" and "consistent s"
  shows "sceneShapes (addShapesForEquation s num1 num2)
           = shapeMeshesRef (addShapesForEquation s num1 num2)"
proof -
  from assms(1) have sc: "sceneRef (clearShapes s) \<noteq> None"
    by (simp add: ready_def clearShapes_fields)
  from assms(2) have e: "sceneShapes (clearShapes s) = []"
    by (simp add: consistent_def clearShapes_sceneShapes)
  show ?thesis
    using assms(1) sc e
    by (simp add: addShapes_ready_eq shapesLoop_sceneShapes shapesLoop_list
        clearShapes_list_consistent [OF assms(2)])
qed

lemma addShapes_sceneLights: "sceneLights (addShapesForEquation s num1 num2) = sceneLights s"
  by (simp add: addShapesForEquation_def Let_def shapesLoop_sceneLights clearShapes_sceneLights)

lemma addShapes_consistent:
  assumes "consistent s"
  shows "consistent (addShapesForEquation s num1 num2)"
proof (cases "ready s")
  case True
  have "list_all (\<lambda>m. uid m < nextId (addShapesForEquation s num1 num2))
      (shapeMeshesRef (addShapesForEquation s num1 num2))"
    using addShapes_ready_uids [OF True, of _ num1 num2]
    by (simp add: list_all_iff addShapes_ready_nextId [OF True])
  then show ?thesis
    using addShapes_ready_sceneShapes [OF True assms] by (simp add: consistent_def)
next
  case False
  then have "addShapesForEquation s num1 num2 = clearShapes s"
    by (intro addShapes_guard_fails) (auto simp: ready_def)
  then show ?thesis
    using assms by (simp add: clearShapes_consistent)
qed

lemma consistent_mountedState: "consistent mountedState"
  by (simp add: consistent_def mountedState_def sceneShapes_def)

lemma ready_mountedState: "ready mountedState"
  by (simp add: ready_def mountedState_def)

lemma ready_placedState: "ready placedState"
  by (simp add: ready_def placedState_def)

lemma consistent_placedState: "consistent placedState"
  by (simp add: consistent_def placedState_def sceneShapes_def oldShape_def)

text \<open>
  Two calls in a row from a mounted, loaded component: the second layout alone is in the
  list, built with the object numbers that follow those of the first.
\<close>

lemma second_call_list:
  assumes "ready s"
  shows "shapeMeshesRef (addShapesForEquation (addShapesForEquation s a b) c d)
     = map (\<lambda>i. newShape c d (the (textureRef s)) (nextId s + (a + b) + i) i) [0..<c + d]"
proof -
  have t: "textureRef (addShapesForEquation s a b) = textureRef s"
    using assms by (simp add: addShapes_ready_eq shapesLoop_textureRef clearShapes_fields)
  show ?thesis
    using addShapes_ready_preserved [OF assms, of a b]
    by (simp add: addShapes_ready_list t addShapes_ready_nextId [OF assms])
qed

section \<open>The claims\<close>

text \<open>
  C1. The claim is that, for counts with a positive total, the mesh at index \<open>i\<close> stands
  at the closed form of the specification: \<open>Y = yCell * spacing - (gridY - 1) * spacing / 2\<close>,
  \<open>Z = zCell * spacing - (gridZ - 1) * spacing / 2\<close> and
  \<open>X = overallStartX + blockIndex * blockSpacingX + xCell * spacing - blockXCenterOffset\<close>
  with \<open>overallStartX = - totalSceneWidth / 2\<close>, the width counting the columns the last
  block occupies. The source sets out to count "how many columns are occupied in the
  last block" and takes the column of the last unit instead. For the counts 6 and 0, and
  for 7 and 9, the last block occupies five columns and the source counts one: the first
  mesh stands at \<open>X = -2.9\<close> where the closed form gives \<open>-5.3\<close>. Y and Z agree.
\<close>

theorem closed_form_missed_on_partial_row:
  assumes "ready s"
  shows "position (shapeMeshesRef (addShapesForEquation s 6 0) ! 0) = (- 2.9, - 2.4, - 2.4)
    \<and> spec_position 6 0 = (- 5.3, - 2.4, - 2.4)
    \<and> position (shapeMeshesRef (addShapesForEquation s 7 9) ! 0) = (- 2.9, - 2.4, - 2.4)
    \<and> spec_position 16 0 = (- 5.3, - 2.4, - 2.4)
    \<and> columnsInLastBlock 6 = 1 \<and> spec_columnsInLastBlock 6 = 5
    \<and> length (spec_lastBlockColumns 6) = 5"
proof (intro conjI)
  show "position (shapeMeshesRef (addShapesForEquation s 6 0) ! 0) = (- 2.9, - 2.4, - 2.4)"
    using assms by (simp add: addShapes_ready_nth newShape_def layout_defs)
  show "position (shapeMeshesRef (addShapesForEquation s 7 9) ! 0) = (- 2.9, - 2.4, - 2.4)"
    using assms by (simp add: addShapes_ready_nth newShape_def layout_defs)
  show "spec_position 6 0 = (- 5.3, - 2.4, - 2.4)"
    by (simp add: spec_layout_defs)
  show "spec_position 16 0 = (- 5.3, - 2.4, - 2.4)"
    by (simp add: spec_layout_defs)
  show "columnsInLastBlock 6 = 1" and "spec_columnsInLastBlock 6 = 5"
    using columnsInLastBlock_6 by simp_all
  show "length (spec_lastBlockColumns 6) = 5"
    using spec_lastBlockColumns_length [of 6] columnsInLastBlock_6 by simp
qed

theorem closed_form_missed_on_partial_row_witness:
  "ready mountedState
   \<and> fst (position (shapeMeshesRef (addShapesForEquation mountedState 6 0) ! 0)) = - 2.9
   \<and> fst (spec_position 6 0) = - 5.3"
proof -
  have r: "ready mountedState"
    by (simp add: ready_def mountedState_def)
  note t = closed_form_missed_on_partial_row [OF r]
  from t have a: "position (shapeMeshesRef (addShapesForEquation mountedState 6 0) ! 0)
      = (- 2.9, - 2.4, - 2.4)"
    by blast
  from t have b: "spec_position 6 0 = (- 5.3, - 2.4, - 2.4)"
    by blast
  show ?thesis
    using r by (simp add: a b)
qed

text \<open>
  C2. For all counts \<open>num1\<close> and \<open>num2\<close>, a call that passes the guard leaves exactly
  \<open>num1 + num2\<close> meshes in the list, one for each index from 0 up to the total: the
  mesh at index \<open>i\<close> is the one constructed in iteration \<open>i\<close> of the loop.
\<close>

theorem layout_emits_total_units:
  assumes "ready s"
  shows "length (shapeMeshesRef (addShapesForEquation s num1 num2)) = num1 + num2
    \<and> shapeMeshesRef (addShapesForEquation s num1 num2) =
        map (\<lambda>i. newShape num1 num2 (the (textureRef s)) (nextId s + i) i) [0..<num1 + num2]"
  using assms by (simp add: addShapes_ready_list)

theorem layout_emits_total_units_witness:
  "ready mountedState
   \<and> length (shapeMeshesRef (addShapesForEquation mountedState 7 9)) = 16"
  using layout_emits_total_units [of mountedState 7 9]
  by (simp add: ready_def mountedState_def)

text \<open>
  C3. The meshes at the indices below \<open>num1\<close> are orange (the first operand) and the
  meshes at the indices from \<open>num1\<close> up to the total are blue (the second operand).
  For the counts 7 and 9 there are 16 meshes in one block (every index has block index
  0), seven orange ones followed by nine blue ones.
\<close>

theorem first_orange_then_blue:
  assumes "ready s"
  shows "(\<forall>i. i < num1 \<longrightarrow>
            color (shapeMeshesRef (addShapesForEquation s num1 num2) ! i) = orangeColor)
    \<and> (\<forall>i. num1 \<le> i \<and> i < num1 + num2 \<longrightarrow>
            color (shapeMeshesRef (addShapesForEquation s num1 num2) ! i) = blueColor)
    \<and> length (shapeMeshesRef (addShapesForEquation s 7 9)) = 16
    \<and> numBlocks (totalShapes 7 9) = 1
    \<and> filter (\<lambda>i. currentBlockIndex i = 0) [0..<totalShapes 7 9] = [0..<16]
    \<and> map color (shapeMeshesRef (addShapesForEquation s 7 9))
         = replicate 7 orangeColor @ replicate 9 blueColor"
proof (intro conjI allI impI)
  fix i assume "i < num1"
  with assms show "color (shapeMeshesRef (addShapesForEquation s num1 num2) ! i) = orangeColor"
    by (simp add: addShapes_ready_nth newShape_def)
next
  fix i assume "num1 \<le> i \<and> i < num1 + num2"
  with assms show "color (shapeMeshesRef (addShapesForEquation s num1 num2) ! i) = blueColor"
    by (simp add: addShapes_ready_nth newShape_def)
next
  show "length (shapeMeshesRef (addShapesForEquation s 7 9)) = 16"
    using assms by (simp add: addShapes_ready_length)
next
  show "numBlocks (totalShapes 7 9) = 1"
    by (simp add: numBlocks_div totalShapes_def)
next
  show "filter (\<lambda>i. currentBlockIndex i = 0) [0..<totalShapes 7 9] = [0..<16]"
    by (simp add: totalShapes_def first_block_filter)
next
  have "map (\<lambda>i. if i < 7 then orangeColor else blueColor) [0..<(7::nat) + 9]
      = replicate 7 orangeColor @ replicate 9 blueColor"
    by code_simp
  then show "map color (shapeMeshesRef (addShapesForEquation s 7 9))
      = replicate 7 orangeColor @ replicate 9 blueColor"
    using assms by (simp add: addShapes_ready_colors)
qed

theorem first_orange_then_blue_witness:
  "ready mountedState
   \<and> color (shapeMeshesRef (addShapesForEquation mountedState 7 9) ! 6) = orangeColor
   \<and> color (shapeMeshesRef (addShapesForEquation mountedState 7 9) ! 7) = blueColor
   \<and> color (shapeMeshesRef (addShapesForEquation mountedState 7 9) ! 15) = blueColor"
  using first_orange_then_blue [of mountedState 7 9]
  by (simp add: ready_def mountedState_def)

text \<open>
  C4. The mesh at index \<open>i\<close> is placed from the block index \<open>i div 125\<close>, the index in
  the block \<open>i mod 125\<close> and the cells \<open>xCell = indexInBlock mod 5\<close>,
  \<open>yCell = (indexInBlock div 5) mod 5\<close>, \<open>zCell = indexInBlock div 25\<close>. Two different
  indices never have the same pair of block index and index in the block, and every
  block but the last one holds exactly 125 of the indices below the total (no block
  holds more).
\<close>

theorem block_assignment:
  assumes "ready s"
  shows "(\<forall>i. i < num1 + num2 \<longrightarrow>
            position (shapeMeshesRef (addShapesForEquation s num1 num2) ! i)
              = (overallStartX (num1 + num2) + real (currentBlockIndex i) * blockSpacingX
                   + real (xInBlock i) * spacing - blockCenterOffsetX,
                 real (yInBlock i) * spacing - blockCenterOffsetY,
                 real (zInBlock i) * spacing - blockCenterOffsetZ))
    \<and> (\<forall>i. currentBlockIndex i = i div 125 \<and> indexInBlock i = i mod 125
            \<and> xInBlock i = indexInBlock i mod 5
            \<and> yInBlock i = (indexInBlock i div 5) mod 5
            \<and> zInBlock i = indexInBlock i div 25)
    \<and> (\<forall>i j. i \<noteq> j \<longrightarrow>
            (currentBlockIndex i, indexInBlock i) \<noteq> (currentBlockIndex j, indexInBlock j))
    \<and> (\<forall>blk. blk + 1 < numBlocks (totalShapes num1 num2) \<longrightarrow>
            length (filter (\<lambda>i. currentBlockIndex i = blk) [0..<totalShapes num1 num2]) = 125)
    \<and> (\<forall>blk. length (filter (\<lambda>i. currentBlockIndex i = blk) [0..<totalShapes num1 num2])
            \<le> 125)"
proof (intro conjI allI impI)
  fix i assume "i < num1 + num2"
  with assms show "position (shapeMeshesRef (addShapesForEquation s num1 num2) ! i)
      = (overallStartX (num1 + num2) + real (currentBlockIndex i) * blockSpacingX
           + real (xInBlock i) * spacing - blockCenterOffsetX,
         real (yInBlock i) * spacing - blockCenterOffsetY,
         real (zInBlock i) * spacing - blockCenterOffsetZ)"
    by (simp add: addShapes_ready_nth newShape_def totalShapes_def finalX_def finalY_def
        finalZ_def)
next
  fix i show "currentBlockIndex i = i div 125" by (rule currentBlockIndex_div)
next
  fix i show "indexInBlock i = i mod 125" by (rule indexInBlock_mod)
next
  fix i show "xInBlock i = indexInBlock i mod 5" by (simp add: xInBlock_def gridX_dim_def)
next
  fix i show "yInBlock i = (indexInBlock i div 5) mod 5"
    by (simp add: yInBlock_div indexInBlock_mod)
next
  fix i show "zInBlock i = indexInBlock i div 25"
    by (simp add: zInBlock_div indexInBlock_mod)
next
  fix i j :: nat assume "i \<noteq> j"
  then show "(currentBlockIndex i, indexInBlock i) \<noteq> (currentBlockIndex j, indexInBlock j)"
    using block_pair_inj [of i j] by auto
next
  fix blk assume "blk + 1 < numBlocks (totalShapes num1 num2)"
  then show "length (filter (\<lambda>i. currentBlockIndex i = blk) [0..<totalShapes num1 num2]) = 125"
    by (rule full_block)
next
  fix blk
  show "length (filter (\<lambda>i. currentBlockIndex i = blk) [0..<totalShapes num1 num2]) \<le> 125"
    by (rule any_block)
qed

theorem block_assignment_witness:
  "ready mountedState
   \<and> (0::nat) + 1 < numBlocks (totalShapes 126 0)
   \<and> length (filter (\<lambda>i. currentBlockIndex i = 0) [0..<totalShapes 126 0]) = 125
   \<and> (currentBlockIndex 124, indexInBlock 124) \<noteq> (currentBlockIndex 125, indexInBlock 125)
   \<and> currentBlockIndex 125 = 1 \<and> indexInBlock 125 = 0
   \<and> position (shapeMeshesRef (addShapesForEquation mountedState 126 0) ! 125)
        = (1.6, - 2.4, - 2.4)"
proof -
  have r: "ready mountedState"
    by (simp add: ready_def mountedState_def)
  have n: "(0::nat) + 1 < numBlocks (totalShapes 126 0)"
    by (simp add: numBlocks_div totalShapes_def)
  note t = block_assignment [OF r, of 126 0]
  from t have p: "position (shapeMeshesRef (addShapesForEquation mountedState 126 0) ! 125)
      = (overallStartX (126 + 0) + real (currentBlockIndex 125) * blockSpacingX
           + real (xInBlock 125) * spacing - blockCenterOffsetX,
         real (yInBlock 125) * spacing - blockCenterOffsetY,
         real (zInBlock 125) * spacing - blockCenterOffsetZ)"
    by simp
  from t n have f: "length (filter (\<lambda>i. currentBlockIndex i = 0) [0..<totalShapes 126 0]) = 125"
    by blast
  from t have d: "(currentBlockIndex 124, indexInBlock 124)
      \<noteq> (currentBlockIndex 125, indexInBlock 125)"
    by simp
  from t have c: "currentBlockIndex 125 = 1 \<and> indexInBlock 125 = 0"
    by simp
  have v: "(overallStartX (126 + 0) + real (currentBlockIndex 125) * blockSpacingX
           + real (xInBlock 125) * spacing - blockCenterOffsetX,
         real (yInBlock 125) * spacing - blockCenterOffsetY,
         real (zInBlock 125) * spacing - blockCenterOffsetZ) = (1.6, - 2.4, - 2.4)"
    by (simp add: layout_defs)
  show ?thesis
    using r n f d c p v by simp
qed

text \<open>
  C5. For the counts 5 and 0 the claim is that the X coordinates are symmetric about 0.
  The source computes \<open>overallStartX\<close> "to center the entire scene" and then subtracts
  the block's centring offset as well, so the five meshes stand at
  \<open>-5.3, -4.1, -2.9, -1.7, -0.5\<close>: all left of the origin, symmetric about \<open>-2.9\<close>.
  There is a mesh at \<open>-5.3\<close> and none at \<open>5.3\<close>.
\<close>

theorem five_units_left_of_origin:
  assumes "ready s"
  shows "map (\<lambda>m. fst (position m)) (shapeMeshesRef (addShapesForEquation s 5 0))
           = [- 5.3, - 4.1, - 2.9, - 1.7, - 0.5]"
proof -
  have "map (\<lambda>m. fst (position m)) (shapeMeshesRef (addShapesForEquation s 5 0))
      = map (\<lambda>i. finalX 5 i) [0..<5]"
    using assms addShapes_ready_positions [of s 5 0]
    by (simp add: addShapes_ready_list newShape_def totalShapes_def)
  also have "\<dots> = [- 5.3, - 4.1, - 2.9, - 1.7, - 0.5]"
    unfolding upt_5 by (simp add: layout_defs)
  finally show ?thesis .
qed

theorem five_units_left_of_origin_witness:
  "ready mountedState
   \<and> fst (position (shapeMeshesRef (addShapesForEquation mountedState 5 0) ! 0)) = - 5.3
   \<and> 5.3 \<notin> set (map (\<lambda>m. fst (position m))
                   (shapeMeshesRef (addShapesForEquation mountedState 5 0)))"
proof -
  have r: "ready mountedState"
    by (simp add: ready_def mountedState_def)
  note t = five_units_left_of_origin [OF r]
  have "length (shapeMeshesRef (addShapesForEquation mountedState 5 0)) = 5"
    using r by (simp add: addShapes_ready_length)
  then have "fst (position (shapeMeshesRef (addShapesForEquation mountedState 5 0) ! 0))
      = map (\<lambda>m. fst (position m)) (shapeMeshesRef (addShapesForEquation mountedState 5 0)) ! 0"
    by simp
  also have "\<dots> = - 5.3"
    unfolding t by simp
  finally have a: "fst (position (shapeMeshesRef (addShapesForEquation mountedState 5 0) ! 0))
      = - 5.3" .
  have b: "5.3 \<notin> set (map (\<lambda>m. fst (position m))
      (shapeMeshesRef (addShapesForEquation mountedState 5 0)))"
    unfolding t by simp
  show ?thesis using r a b by simp
qed

text \<open>
  C6. The boundaries: the counts 0 and 0 leave the empty list; 125 and 0 leave 125
  meshes in one block (every index has block index 0); 126 and 0 leave 126 meshes in two
  blocks, the indices 0 to 124 in the first and the index 125 alone in the second.
\<close>

theorem boundary_layouts:
  assumes "ready s"
  shows "shapeMeshesRef (addShapesForEquation s 0 0) = []
    \<and> length (shapeMeshesRef (addShapesForEquation s 125 0)) = 125
    \<and> numBlocks (totalShapes 125 0) = 1
    \<and> filter (\<lambda>i. currentBlockIndex i = 0) [0..<totalShapes 125 0] = [0..<125]
    \<and> length (shapeMeshesRef (addShapesForEquation s 126 0)) = 126
    \<and> numBlocks (totalShapes 126 0) = 2
    \<and> filter (\<lambda>i. currentBlockIndex i = 0) [0..<totalShapes 126 0] = [0..<125]
    \<and> filter (\<lambda>i. currentBlockIndex i = 1) [0..<totalShapes 126 0] = [125]"
proof (intro conjI)
  show "shapeMeshesRef (addShapesForEquation s 0 0) = []"
    using assms by (simp add: addShapes_ready_list)
  show "length (shapeMeshesRef (addShapesForEquation s 125 0)) = 125"
    using assms by (simp add: addShapes_ready_length)
  show "length (shapeMeshesRef (addShapesForEquation s 126 0)) = 126"
    using assms by (simp add: addShapes_ready_length)
  show "numBlocks (totalShapes 125 0) = 1"
    by (simp add: numBlocks_div totalShapes_def)
  show "numBlocks (totalShapes 126 0) = 2"
    by (simp add: numBlocks_div totalShapes_def)
  show "filter (\<lambda>i. currentBlockIndex i = 0) [0..<totalShapes 125 0] = [0..<125]"
    by (simp add: totalShapes_def first_block_filter)
  show "filter (\<lambda>i. currentBlockIndex i = 0) [0..<totalShapes 126 0] = [0..<125]"
    by (simp add: totalShapes_def upt_126 first_block_filter currentBlockIndex_div)
  show "filter (\<lambda>i. currentBlockIndex i = 1) [0..<totalShapes 126 0] = [125]"
    by (simp add: totalShapes_def upt_126 first_block_filter_1 currentBlockIndex_div)
qed

theorem boundary_layouts_witness:
  "ready mountedState
   \<and> shapeMeshesRef (addShapesForEquation mountedState 0 0) = []
   \<and> length (shapeMeshesRef (addShapesForEquation mountedState 126 0)) = 126
   \<and> filter (\<lambda>i. currentBlockIndex i = 1) [0..<totalShapes 126 0] = [125]"
  using boundary_layouts [of mountedState]
  by (simp add: ready_def mountedState_def)

text \<open>
  C7. The layout is a function of the two counts alone: two calls with the same counts,
  from any two states that pass the guard (whatever shapes, scene children, texture and
  object counter they hold), leave lists of the same length with the same colours,
  positions and box sizes in the same order.
\<close>

theorem layout_deterministic:
  assumes "ready s1" and "ready s2"
  shows "length (shapeMeshesRef (addShapesForEquation s1 num1 num2))
           = length (shapeMeshesRef (addShapesForEquation s2 num1 num2))
    \<and> map color (shapeMeshesRef (addShapesForEquation s1 num1 num2))
           = map color (shapeMeshesRef (addShapesForEquation s2 num1 num2))
    \<and> map position (shapeMeshesRef (addShapesForEquation s1 num1 num2))
           = map position (shapeMeshesRef (addShapesForEquation s2 num1 num2))
    \<and> map geometry (shapeMeshesRef (addShapesForEquation s1 num1 num2))
           = map geometry (shapeMeshesRef (addShapesForEquation s2 num1 num2))"
  using assms
  by (simp add: addShapes_ready_length addShapes_ready_colors addShapes_ready_positions)
     (simp add: addShapes_ready_list newShape_def)

theorem layout_deterministic_witness:
  "ready mountedState \<and> ready placedState
   \<and> map position (shapeMeshesRef (addShapesForEquation mountedState 2 1))
        = map position (shapeMeshesRef (addShapesForEquation placedState 2 1))
   \<and> map color (shapeMeshesRef (addShapesForEquation mountedState 2 1))
        = map color (shapeMeshesRef (addShapesForEquation placedState 2 1))"
  using layout_deterministic [of mountedState placedState 2 1]
  by (simp add: ready_def mountedState_def placedState_def)

text \<open>
  C8. A further call replaces the layout. From a state that passes the guard and whose
  scene holds the meshes of the list, \<^verbatim>\<open>clearShapes\<close> first empties the list and takes
  every mesh out of the scene, and only then the loop runs, from that state. Afterwards
  the list is exactly the new layout, the meshes of the scene are exactly the list, the
  lights are the ones that were there, and no mesh of the previous list is left in the
  list or in the scene.
\<close>

theorem reinvocation_replaces_layout:
  assumes "ready s" and "consistent s"
  shows "shapeMeshesRef (clearShapes s) = [] \<and> sceneShapes (clearShapes s) = []
    \<and> addShapesForEquation s num1 num2
          = shapesLoop num1 num2 (the (textureRef s)) 0 (clearShapes s)
    \<and> shapeMeshesRef (addShapesForEquation s num1 num2)
          = map (\<lambda>i. newShape num1 num2 (the (textureRef s)) (nextId s + i) i) [0..<num1 + num2]
    \<and> sceneShapes (addShapesForEquation s num1 num2)
          = shapeMeshesRef (addShapesForEquation s num1 num2)
    \<and> sceneLights (addShapesForEquation s num1 num2) = sceneLights s
    \<and> (\<forall>m. m \<in> set (shapeMeshesRef s) \<longrightarrow>
           m \<notin> set (shapeMeshesRef (addShapesForEquation s num1 num2))
           \<and> m \<notin> set (sceneShapes (addShapesForEquation s num1 num2)))"
proof (intro conjI allI impI)
  show "shapeMeshesRef (clearShapes s) = []"
    using assms(2) by (rule clearShapes_list_consistent)
  show "sceneShapes (clearShapes s) = []"
    using assms(2) by (simp add: consistent_def clearShapes_sceneShapes)
  show "addShapesForEquation s num1 num2
      = shapesLoop num1 num2 (the (textureRef s)) 0 (clearShapes s)"
    using assms(1) by (rule addShapes_ready_eq)
  show "shapeMeshesRef (addShapesForEquation s num1 num2)
      = map (\<lambda>i. newShape num1 num2 (the (textureRef s)) (nextId s + i) i) [0..<num1 + num2]"
    using assms(1) by (rule addShapes_ready_list)
  show sh: "sceneShapes (addShapesForEquation s num1 num2)
      = shapeMeshesRef (addShapesForEquation s num1 num2)"
    using assms by (rule addShapes_ready_sceneShapes)
  show "sceneLights (addShapesForEquation s num1 num2) = sceneLights s"
    by (rule addShapes_sceneLights)
  fix m assume old: "m \<in> set (shapeMeshesRef s)"
  with assms(2) have "uid m < nextId s"
    by (simp add: consistent_def list_all_iff)
  then show n: "m \<notin> set (shapeMeshesRef (addShapesForEquation s num1 num2))"
    using addShapes_ready_uids [OF assms(1), of m num1 num2] by auto
  then show "m \<notin> set (sceneShapes (addShapesForEquation s num1 num2))"
    by (simp add: sh)
qed

theorem reinvocation_replaces_layout_witness:
  "ready placedState \<and> consistent placedState
   \<and> shapeMeshesRef placedState = [oldShape]
   \<and> length (shapeMeshesRef (addShapesForEquation placedState 2 1)) = 3
   \<and> map uid (shapeMeshesRef (addShapesForEquation placedState 2 1)) = [4, 5, 6]
   \<and> oldShape \<notin> set (shapeMeshesRef (addShapesForEquation placedState 2 1))
   \<and> oldShape \<notin> set (sceneShapes (addShapesForEquation placedState 2 1))
   \<and> sceneLights (addShapesForEquation placedState 2 1) = [0, 1, 2]"
proof -
  have r: "ready placedState"
    by (simp add: ready_def placedState_def)
  have c: "consistent placedState"
    by (simp add: consistent_def placedState_def sceneShapes_def oldShape_def)
  have o: "shapeMeshesRef placedState = [oldShape]"
    by (simp add: placedState_def)
  note t = reinvocation_replaces_layout [OF r c, of 2 1]
  have u: "[0..<2 + 1] = [0, 1, 2::nat]"
    by code_simp
  from t have l: "shapeMeshesRef (addShapesForEquation placedState 2 1)
      = map (\<lambda>i. newShape 2 1 (the (textureRef placedState)) (nextId placedState + i) i)
          [0..<2 + 1]"
    by blast
  have n: "length (shapeMeshesRef (addShapesForEquation placedState 2 1)) = 3"
    unfolding l by simp
  have i: "map uid (shapeMeshesRef (addShapesForEquation placedState 2 1)) = [4, 5, 6]"
    unfolding l u by (simp add: newShape_def placedState_def)
  have om: "oldShape \<in> set (shapeMeshesRef placedState)"
    by (simp add: o)
  from t om have a: "oldShape \<notin> set (shapeMeshesRef (addShapesForEquation placedState 2 1))"
    by blast
  from t om have b: "oldShape \<notin> set (sceneShapes (addShapesForEquation placedState 2 1))"
    by blast
  from t have "sceneLights (addShapesForEquation placedState 2 1) = sceneLights placedState"
    by blast
  then have g: "sceneLights (addShapesForEquation placedState 2 1) = [0, 1, 2]"
    by (simp add: sceneLights_def placedState_def)
  show ?thesis
    using r c o n i a b g by simp
qed

text \<open>
  C9. When the texture is not loaded (the flag is off or the reference is empty) or the
  scene is missing, the call is \<^verbatim>\<open>clearShapes\<close> alone and places nothing: the list is
  empty afterwards, the meshes that were placed are out of the scene, and the prior
  layout is not kept. The component fills the list only while there is a scene, which is
  the hypothesis; without a scene \<^verbatim>\<open>clearShapes\<close> returns at its own test of the scene
  and the list, empty before, is empty after.
\<close>

theorem guard_failure_clears_shapes:
  assumes "sceneRef s = None \<longrightarrow> shapeMeshesRef s = []"
    and "sceneRef s = None \<or> \<not> textureLoaded s \<or> textureRef s = None"
  shows "addShapesForEquation s num1 num2 = clearShapes s
    \<and> shapeMeshesRef (addShapesForEquation s num1 num2) = []
    \<and> nextId (addShapesForEquation s num1 num2) = nextId s
    \<and> sceneLights (addShapesForEquation s num1 num2) = sceneLights s
    \<and> (sceneShapes s = shapeMeshesRef s \<longrightarrow>
          sceneShapes (addShapesForEquation s num1 num2) = [])"
proof (intro conjI impI)
  show e: "addShapesForEquation s num1 num2 = clearShapes s"
    using assms(2) by (rule addShapes_guard_fails)
  show "shapeMeshesRef (addShapesForEquation s num1 num2) = []"
    unfolding e using assms(1) by (rule clearShapes_list_needs_scene)
  show "nextId (addShapesForEquation s num1 num2) = nextId s"
    by (simp add: e clearShapes_fields)
  show "sceneLights (addShapesForEquation s num1 num2) = sceneLights s"
    by (rule addShapes_sceneLights)
  assume "sceneShapes s = shapeMeshesRef s"
  then show "sceneShapes (addShapesForEquation s num1 num2) = []"
    by (simp add: e clearShapes_sceneShapes)
qed

theorem guard_failure_clears_shapes_witness:
  "sceneRef loadingState \<noteq> None \<and> \<not> textureLoaded loadingState
   \<and> shapeMeshesRef loadingState = [oldShape]
   \<and> sceneShapes loadingState = shapeMeshesRef loadingState
   \<and> shapeMeshesRef (addShapesForEquation loadingState 7 9) = []
   \<and> sceneShapes (addShapesForEquation loadingState 7 9) = []
   \<and> nextId (addShapesForEquation loadingState 7 9) = 4
   \<and> sceneRef noSceneState = None
   \<and> shapeMeshesRef (addShapesForEquation noSceneState 7 9) = []"
proof -
  have sc: "sceneRef loadingState \<noteq> None" and tl: "\<not> textureLoaded loadingState"
    and o: "shapeMeshesRef loadingState = [oldShape]"
    and ss: "sceneShapes loadingState = shapeMeshesRef loadingState"
    and ni: "nextId loadingState = 4"
    by (simp_all add: loadingState_def sceneShapes_def)
  have ns: "sceneRef noSceneState = None" and ne: "shapeMeshesRef noSceneState = []"
    by (simp_all add: noSceneState_def)
  from guard_failure_clears_shapes [of loadingState 7 9] sc tl ss
  have l: "shapeMeshesRef (addShapesForEquation loadingState 7 9) = []"
    and e: "sceneShapes (addShapesForEquation loadingState 7 9) = []"
    and n: "nextId (addShapesForEquation loadingState 7 9) = nextId loadingState"
    by blast+
  from guard_failure_clears_shapes [of noSceneState 7 9] ns ne
  have m: "shapeMeshesRef (addShapesForEquation noSceneState 7 9) = []"
    by blast
  show ?thesis
    using sc tl o ss l e n ni ns m by simp
qed

text \<open>
  C10. The split of a total into two operands does not move any unit: when
  \<open>a1 + b1 = a2 + b2\<close>, the positions after a call with \<open>a1\<close> and \<open>b1\<close> are, index by
  index, the positions after a call with \<open>a2\<close> and \<open>b2\<close>.
\<close>

theorem split_does_not_move_units:
  assumes "ready s1" and "ready s2" and "a1 + b1 = a2 + b2"
  shows "map position (shapeMeshesRef (addShapesForEquation s1 a1 b1))
           = map position (shapeMeshesRef (addShapesForEquation s2 a2 b2))
    \<and> (\<forall>i. i < a1 + b1 \<longrightarrow>
          position (shapeMeshesRef (addShapesForEquation s1 a1 b1) ! i)
            = position (shapeMeshesRef (addShapesForEquation s2 a2 b2) ! i))"
  using assms
  by (simp add: addShapes_ready_positions addShapes_ready_nth newShape_def totalShapes_def)

theorem split_does_not_move_units_witness:
  "ready mountedState \<and> (7::nat) + 9 = 4 + 12
   \<and> position (shapeMeshesRef (addShapesForEquation mountedState 7 9) ! 5)
        = position (shapeMeshesRef (addShapesForEquation mountedState 4 12) ! 5)"
  using split_does_not_move_units [of mountedState mountedState 7 9 4 12]
  by (simp add: ready_def mountedState_def)

end
